theory Spec2Isabelle
  imports Main
begin

section \<open>Data model\<close>

text \<open>
  The service of \<^verbatim>\<open>src/index.ts\<close>: registration and login over a \<^verbatim>\<open>users\<close> table, and a
  token gate (\<^verbatim>\<open>authenticateToken\<close>) in front of every later route. Request and response
  bodies are JSON values; an object is the list of its members (keys distinct, as
  \<^verbatim>\<open>JSON.parse\<close> delivers them).
\<close>

datatype json =
    JNull
  | JBool bool
  | JNum int
  | JStr string
  | JArr "json list"
  | JObj "(string \<times> json) list"

text \<open>Member access \<^verbatim>\<open>obj.key\<close>: \<open>None\<close> stands for \<^verbatim>\<open>undefined\<close>.\<close>

fun json_field :: "json \<Rightarrow> string \<Rightarrow> json option" where
  "json_field (JObj fs) k = map_of fs k"
| "json_field _ k = None"

text \<open>
  A row of the \<^verbatim>\<open>users\<close> table (\<^verbatim>\<open>id\<close> autoincrement primary key, \<^verbatim>\<open>username\<close> unique and
  not null, \<^verbatim>\<open>password\<close> not null: the bcrypt digest) and of the \<^verbatim>\<open>items\<close> table.
\<close>

record user_row =
  u_id :: nat
  u_username :: string
  u_password :: string

record item_row =
  i_id :: nat
  i_name :: string
  i_description :: "string option"

text \<open>
  The database \<^verbatim>\<open>db\<close>: the rows of both tables in insertion order, and the largest id
  the \<^verbatim>\<open>users\<close> table has handed out (SQLite's sequence for an autoincrement key).
\<close>

record store =
  users :: "user_row list"
  users_seq :: nat
  items :: "item_row list"

text \<open>
  The payload of a session token. \<^verbatim>\<open>jwt.sign\<close> is given \<^verbatim>\<open>{userId, username}\<close> and the
  option \<^verbatim>\<open>expiresIn: "1h"\<close>; issue and expiry times are in seconds.
\<close>

record claims =
  userId :: nat
  username :: string
  issuedAt :: nat
  expiresAt :: nat

text \<open>
  A request as the handlers see it, after \<^verbatim>\<open>cors()\<close> and \<^verbatim>\<open>express.json()\<close> have passed
  it on: method, path, the \<^verbatim>\<open>Authorization\<close> header (if sent), the parsed body, and
  \<^verbatim>\<open>req.user\<close>, which only \<^verbatim>\<open>authenticateToken\<close> sets.
\<close>

record request =
  http_method :: string
  path :: string
  authorization :: "string option"
  body :: json
  user :: "claims option"

text \<open>The process environment: \<^verbatim>\<open>process.env.JWT_SECRET\<close> may be undefined.\<close>

record env =
  JWT_SECRET :: "string option"

text \<open>The issues of a failed \<^verbatim>\<open>safeParse\<close>, each with the path of the offending member.\<close>

datatype zod_issue =
    InvalidType "string list"
  | TooSmall "string list" nat

datatype codec_error = SecretMissing | Malformed | InvalidSignature | Expired

datatype db_error = UniqueViolation

datatype exn = JwtError codec_error | DbError db_error

text \<open>
  What a handler does with a request: it sends a response (status and JSON body), or it
  throws and sends nothing itself.
\<close>

datatype outcome = Response nat json | Unhandled exn

text \<open>
  The libraries the program calls and which are not part of its source, as parameters:
  bcrypt (\<open>bcrypt_hash password rounds salt\<close>, the salt being the randomness of the
  call, and \<open>bcrypt_compare password digest\<close>), the primitives of the token codec (the
  keyed signature \<open>mac secret payload\<close>, the serialisation of a payload and of a signed
  token), zod's \<^verbatim>\<open>error.format()\<close>, and Express's test whether a request matches a
  route (\<open>route method pattern request\<close>).
\<close>

record libs =
  bcrypt_hash :: "string \<Rightarrow> nat \<Rightarrow> string \<Rightarrow> string"
  bcrypt_compare :: "string \<Rightarrow> string \<Rightarrow> bool"
  mac :: "string \<Rightarrow> string \<Rightarrow> string"
  encode :: "claims \<Rightarrow> string"
  decode :: "string \<Rightarrow> claims option"
  pack :: "string \<Rightarrow> string \<Rightarrow> string"
  unpack :: "string \<Rightarrow> (string \<times> string) option"
  zod_format :: "zod_issue list \<Rightarrow> json"
  route :: "string \<Rightarrow> string \<Rightarrow> request \<Rightarrow> bool"

section \<open>Validation\<close>

text \<open>
  \<^verbatim>\<open>z.string().min(n)\<close> on the member \<open>key\<close>: anything but a string is an invalid type, a
  string shorter than \<open>n\<close> is too small.
\<close>

definition z_string_min :: "nat \<Rightarrow> string \<Rightarrow> json option \<Rightarrow> zod_issue list + string" where
  "z_string_min n key v =
     (case v of
        Some (JStr s) \<Rightarrow> if length s < n then Inl [TooSmall [key] n] else Inr s
      | _ \<Rightarrow> Inl [InvalidType [key]])"

definition issues_of :: "zod_issue list + string \<Rightarrow> zod_issue list" where
  "issues_of r = (case r of Inl is \<Rightarrow> is | Inr _ \<Rightarrow> [])"

text \<open>
  \<^verbatim>\<open>userSchema.safeParse\<close>: the body must be an object whose \<^verbatim>\<open>username\<close> is a string of
  at least 1 character and whose \<^verbatim>\<open>password\<close> is a string of at least 6. Both members
  are checked and their issues collected; other members are ignored.
\<close>

definition userSchema_safeParse :: "json \<Rightarrow> zod_issue list + (string \<times> string)" where
  "userSchema_safeParse b =
     (case b of
        JObj fs \<Rightarrow>
          (let ru = z_string_min 1 ''username'' (map_of fs ''username'');
               rp = z_string_min 6 ''password'' (map_of fs ''password'')
           in case (ru, rp) of
                (Inr u, Inr p) \<Rightarrow> Inr (u, p)
              | _ \<Rightarrow> Inl (issues_of ru @ issues_of rp))
      | _ \<Rightarrow> Inl [InvalidType []])"

section \<open>The users table\<close>

text \<open>\<^verbatim>\<open>db("users").where({ username }).first()\<close>.\<close>

definition first_user :: "store \<Rightarrow> string \<Rightarrow> user_row option" where
  "first_user db name = find (\<lambda>u. u_username u = name) (users db)"

text \<open>
  \<^verbatim>\<open>db("users").insert({ username, password })\<close>: the unique constraint on \<^verbatim>\<open>username\<close>
  makes the insert throw when the name is taken; otherwise the row gets the next id,
  one more than the largest id the table holds or has handed out.
\<close>

definition next_id :: "store \<Rightarrow> nat" where
  "next_id db = Suc (fold max (map u_id (users db)) (users_seq db))"

definition insert_user :: "store \<Rightarrow> string \<Rightarrow> string \<Rightarrow> db_error + store" where
  "insert_user db name digest =
     (case first_user db name of
        Some _ \<Rightarrow> Inl UniqueViolation
      | None \<Rightarrow>
          (let i = next_id db
           in Inr (db\<lparr>users := users db @ [\<lparr>u_id = i, u_username = name, u_password = digest\<rparr>],
                      users_seq := i\<rparr>)))"

section \<open>Session token codec\<close>

text \<open>
  Modelled from the spec: the Session Token Codec (\<^verbatim>\<open>jwt.sign\<close> and \<^verbatim>\<open>jwt.verify\<close> of the
  jsonwebtoken library, which is not part of the source). Issuing encodes the payload
  \<open>{userId, username, issuedAt, expiresAt = issuedAt + 1h}\<close>, signs it with the secret
  and returns payload and signature as one opaque string. Without a secret the codec
  cannot function; an empty string counts as absent, as it is falsy.
\<close>

definition jwt_sign :: "libs \<Rightarrow> nat \<Rightarrow> string \<Rightarrow> string option \<Rightarrow> nat \<Rightarrow> codec_error + string" where
  "jwt_sign L uid uname secret now =
     (case secret of
        None \<Rightarrow> Inl SecretMissing
      | Some k \<Rightarrow>
          if k = [] then Inl SecretMissing
          else (let p = encode L \<lparr>userId = uid, username = uname,
                                   issuedAt = now, expiresAt = now + 3600\<rparr>
                in Inr (pack L p (mac L k p))))"

text \<open>
  Modelled from the spec: verification re-derives the signature from the payload and
  the secret and compares it with the presented one before any field is trusted; only
  then is the payload decoded and its expiry checked.
\<close>

definition jwt_verify :: "libs \<Rightarrow> string \<Rightarrow> string option \<Rightarrow> nat \<Rightarrow> codec_error + claims" where
  "jwt_verify L token secret now =
     (case secret of
        None \<Rightarrow> Inl SecretMissing
      | Some k \<Rightarrow>
          if k = [] then Inl SecretMissing
          else (case unpack L token of
                  None \<Rightarrow> Inl Malformed
                | Some (p, s) \<Rightarrow>
                    if mac L k p \<noteq> s then Inl InvalidSignature
                    else (case decode L p of
                            None \<Rightarrow> Inl Malformed
                          | Some c \<Rightarrow> if expiresAt c \<le> now then Inl Expired else Inr c)))"

section \<open>Handlers\<close>

text \<open>\<^verbatim>\<open>String.prototype.replace\<close> with a string pattern: the first occurrence only.\<close>

fun replace :: "string \<Rightarrow> string \<Rightarrow> string \<Rightarrow> string" where
  "replace pat rep [] = (if pat = [] then rep else [])"
| "replace pat rep (c # cs) =
     (if take (length pat) (c # cs) = pat then rep @ drop (length pat) (c # cs)
      else c # replace pat rep cs)"

definition message :: "string \<Rightarrow> json" where
  "message m = JObj [(''message'', JStr m)]"

text \<open>
  \<^verbatim>\<open>req.header("Authorization")?.replace("Bearer ", "")\<close>: \<open>None\<close> when the header is
  not sent.
\<close>

definition presented_token :: "request \<Rightarrow> string option" where
  "presented_token req = map_option (replace ''Bearer '' '''') (authorization req)"

text \<open>
  \<^verbatim>\<open>authenticateToken(req, res, next)\<close>: no header, or nothing left of it once
  \<^verbatim>\<open>"Bearer "\<close> is removed, is answered 401; a token that \<^verbatim>\<open>jwt.verify\<close> rejects, for
  whatever reason, is answered 403; otherwise the payload becomes \<^verbatim>\<open>req.user\<close> and
  \<^verbatim>\<open>next\<close> runs.
\<close>

definition authenticateToken ::
  "libs \<Rightarrow> env \<Rightarrow> nat \<Rightarrow> request \<Rightarrow> store \<Rightarrow> (request \<Rightarrow> store \<Rightarrow> outcome \<times> store)
     \<Rightarrow> outcome \<times> store" where
  "authenticateToken L e now req db nxt =
     (case presented_token req of
        None \<Rightarrow> (Response 401 (message ''Access denied, token missing''), db)
      | Some token \<Rightarrow>
          if token = [] then (Response 401 (message ''Access denied, token missing''), db)
          else (case jwt_verify L token (JWT_SECRET e) now of
                  Inl err \<Rightarrow> (Response 403 (message ''Invalid token''), db)
                | Inr u \<Rightarrow> nxt (req\<lparr>user := Some u\<rparr>) db))"

text \<open>
  \<^verbatim>\<open>POST /register\<close>. \<open>salt\<close> is the randomness \<^verbatim>\<open>bcrypt.hash(password, 10)\<close> draws.
\<close>

definition register :: "libs \<Rightarrow> string \<Rightarrow> store \<Rightarrow> request \<Rightarrow> outcome \<times> store" where
  "register L salt db req =
     (case userSchema_safeParse (body req) of
        Inl issues \<Rightarrow> (Response 400 (JObj [(''errors'', zod_format L issues)]), db)
      | Inr (name, password) \<Rightarrow>
          (case first_user db name of
             Some _ \<Rightarrow> (Response 400 (message ''Username already taken''), db)
           | None \<Rightarrow>
               (let hashedPassword = bcrypt_hash L password 10 salt
                in case insert_user db name hashedPassword of
                     Inl err \<Rightarrow> (Unhandled (DbError err), db)
                   | Inr db' \<Rightarrow> (Response 201 (message ''User registered successfully''), db'))))"

text \<open>\<^verbatim>\<open>POST /login\<close>. \<open>now\<close> is the clock in seconds when the token is signed.\<close>

definition login :: "libs \<Rightarrow> env \<Rightarrow> nat \<Rightarrow> store \<Rightarrow> request \<Rightarrow> outcome \<times> store" where
  "login L e now db req =
     (case userSchema_safeParse (body req) of
        Inl issues \<Rightarrow> (Response 400 (JObj [(''errors'', zod_format L issues)]), db)
      | Inr (name, password) \<Rightarrow>
          (case first_user db name of
             None \<Rightarrow> (Response 400 (message ''Invalid credentials''), db)
           | Some usr \<Rightarrow>
               if \<not> bcrypt_compare L password (u_password usr)
               then (Response 400 (message ''Invalid credentials''), db)
               else (case jwt_sign L (u_id usr) (u_username usr) (JWT_SECRET e) now of
                       Inl err \<Rightarrow> (Unhandled (JwtError err), db)
                     | Inr token \<Rightarrow> (Response 200 (JObj [(''token'', JStr token)]), db))))"

text \<open>
  The application in registration order: the two unprotected routes, then
  \<^verbatim>\<open>app.use(authenticateToken)\<close>, then every other route (\<open>routes\<close>: the items, users and
  profile handlers, which reach the request only through the token gate).
\<close>

definition app ::
  "libs \<Rightarrow> env \<Rightarrow> nat \<Rightarrow> string \<Rightarrow> (request \<Rightarrow> store \<Rightarrow> outcome \<times> store) \<Rightarrow> store \<Rightarrow> request
     \<Rightarrow> outcome \<times> store" where
  "app L e now salt routes db req =
     (if route L ''POST'' ''/register'' req then register L salt db req
      else if route L ''POST'' ''/login'' req then login L e now db req
      else authenticateToken L e now req db routes)"

section \<open>What the theorems ask of the libraries\<close>

text \<open>
  The codec's serialisations can be read back: decoding an encoded payload gives the
  payload, and taking a signed token apart gives its payload and signature. A signed
  token is never the empty string.
\<close>

definition codec_ok :: "libs \<Rightarrow> bool" where
  "codec_ok L \<longleftrightarrow>
     (\<forall>c. decode L (encode L c) = Some c) \<and>
     (\<forall>p s. unpack L (pack L p s) = Some (p, s)) \<and>
     (\<forall>p s. pack L p s \<noteq> [])"

text \<open>bcrypt accepts a password against a digest made from that same password.\<close>

definition hasher_ok :: "libs \<Rightarrow> bool" where
  "hasher_ok L \<longleftrightarrow> (\<forall>p r s. bcrypt_compare L p (bcrypt_hash L p r s))"

section \<open>A reference instance of the libraries\<close>

text \<open>
  A small executable instance, on which the theorems below are exercised: numbers in
  unary, a length-prefixed token, a signature that keeps its input (hence free of
  collisions), a digest with the salt in front, and exact route matching.
\<close>

definition unary :: "nat \<Rightarrow> string" where
  "unary n = replicate n (CHR ''1'') @ ''0''"

definition un_unary :: "string \<Rightarrow> nat \<times> string" where
  "un_unary s =
     (length (takeWhile (\<lambda>c. c = CHR ''1'') s), drop 1 (dropWhile (\<lambda>c. c = CHR ''1'') s))"

definition ref_encode :: "claims \<Rightarrow> string" where
  "ref_encode c = unary (userId c) @ unary (issuedAt c) @ unary (expiresAt c) @ username c"

definition ref_decode :: "string \<Rightarrow> claims option" where
  "ref_decode s =
     (let (a, r1) = un_unary s; (b, r2) = un_unary r1; (x, r3) = un_unary r2
      in Some \<lparr>userId = a, username = r3, issuedAt = b, expiresAt = x\<rparr>)"

definition ref_pack :: "string \<Rightarrow> string \<Rightarrow> string" where
  "ref_pack p s = unary (length p) @ p @ s"

definition ref_unpack :: "string \<Rightarrow> (string \<times> string) option" where
  "ref_unpack t =
     (let (n, r) = un_unary t
      in if n \<le> length r then Some (take n r, drop n r) else None)"

definition ref_mac :: "string \<Rightarrow> string \<Rightarrow> string" where
  "ref_mac k p = k @ p"

definition ref_hash :: "string \<Rightarrow> nat \<Rightarrow> string \<Rightarrow> string" where
  "ref_hash password rounds salt = ref_pack salt password"

definition ref_compare :: "string \<Rightarrow> string \<Rightarrow> bool" where
  "ref_compare password digest =
     (case ref_unpack digest of None \<Rightarrow> False | Some (salt, h) \<Rightarrow> h = password)"

fun ref_issue :: "zod_issue \<Rightarrow> json" where
  "ref_issue (InvalidType ks) = JObj [(''code'', JStr ''invalid_type''), (''path'', JArr (map JStr ks))]"
| "ref_issue (TooSmall ks n) =
     JObj [(''code'', JStr ''too_small''), (''path'', JArr (map JStr ks)), (''minimum'', JNum (int n))]"

definition ref_format :: "zod_issue list \<Rightarrow> json" where
  "ref_format is = JArr (map ref_issue is)"

definition ref_route :: "string \<Rightarrow> string \<Rightarrow> request \<Rightarrow> bool" where
  "ref_route m pat req \<longleftrightarrow> http_method req = m \<and> path req = pat"

definition ref_libs :: libs where
  "ref_libs =
     \<lparr>bcrypt_hash = ref_hash, bcrypt_compare = ref_compare, mac = ref_mac,
      encode = ref_encode, decode = ref_decode, pack = ref_pack, unpack = ref_unpack,
      zod_format = ref_format, route = ref_route\<rparr>"

text \<open>Sample inputs: an empty database, a request with a body, two configurations.\<close>

definition db0 :: store where
  "db0 = \<lparr>users = [], users_seq = 0, items = []\<rparr>"

definition credentials :: "string \<Rightarrow> string \<Rightarrow> json" where
  "credentials u p = JObj [(''username'', JStr u), (''password'', JStr p)]"

definition post :: "string \<Rightarrow> json \<Rightarrow> request" where
  "post pth b = \<lparr>http_method = ''POST'', path = pth, authorization = None, body = b, user = None\<rparr>"

definition get_with :: "string \<Rightarrow> string option \<Rightarrow> request" where
  "get_with pth h = \<lparr>http_method = ''GET'', path = pth, authorization = h, body = JObj [], user = None\<rparr>"

definition env_secret :: env where
  "env_secret = \<lparr>JWT_SECRET = Some ''k3y''\<rparr>"

definition env_no_secret :: env where
  "env_no_secret = \<lparr>JWT_SECRET = None\<rparr>"

text \<open>A downstream router that answers every request it is given.\<close>

definition routes_ok :: "request \<Rightarrow> store \<Rightarrow> outcome \<times> store" where
  "routes_ok req db = (Response 200 (JArr []), db)"

text \<open>The header a client sends for a token, and a token the reference codec issues.\<close>

definition bearer :: "string \<Rightarrow> string" where
  "bearer t = ''Bearer '' @ t"

definition claims0 :: claims where
  "claims0 = \<lparr>userId = 1, username = ''alice'', issuedAt = 100, expiresAt = 3700\<rparr>"

definition token0 :: string where
  "token0 = ref_pack (ref_encode claims0) (ref_mac ''k3y'' (ref_encode claims0))"

text \<open>The database after \<open>alice\<close> has registered with the password \<open>secret1\<close>.\<close>

definition db1 :: store where
  "db1 = \<lparr>users = [\<lparr>u_id = 1, u_username = ''alice'',
                      u_password = ref_hash ''secret1'' 10 ''NaCl''\<rparr>],
          users_seq = 1, items = []\<rparr>"

section \<open>Facts about the reference instance\<close>

lemma un_unary_unary: "un_unary (unary n @ r) = (n, r)"
  by (simp add: un_unary_def unary_def takeWhile_append dropWhile_append)

lemma ref_decode_encode: "ref_decode (ref_encode c) = Some c"
  by (simp add: ref_decode_def ref_encode_def un_unary_unary)

lemma ref_unpack_pack: "ref_unpack (ref_pack p s) = Some (p, s)"
  by (simp add: ref_unpack_def ref_pack_def un_unary_unary)

lemma ref_compare_hash: "ref_compare p (ref_hash q r s) \<longleftrightarrow> p = q"
  by (auto simp: ref_compare_def ref_hash_def ref_unpack_pack)

lemma ref_libs_sel:
  "bcrypt_hash ref_libs = ref_hash" "bcrypt_compare ref_libs = ref_compare"
  "mac ref_libs = ref_mac" "encode ref_libs = ref_encode" "decode ref_libs = ref_decode"
  "pack ref_libs = ref_pack" "unpack ref_libs = ref_unpack"
  "zod_format ref_libs = ref_format" "route ref_libs = ref_route"
  by (simp_all add: ref_libs_def)

lemma ref_pack_nonempty: "ref_pack p s \<noteq> []"
  by (simp add: ref_pack_def unary_def)

lemma codec_ok_ref: "codec_ok ref_libs"
  by (simp add: codec_ok_def ref_libs_sel ref_decode_encode ref_unpack_pack ref_pack_nonempty)

lemma hasher_ok_ref: "hasher_ok ref_libs"
  by (simp add: hasher_ok_def ref_libs_sel ref_compare_hash)

lemma inj_ref_mac: "inj (mac ref_libs k)"
  by (simp add: inj_def ref_libs_sel ref_mac_def)

lemma presented_token_get_with:
  "presented_token (get_with pth None) = None"
  "presented_token (get_with pth (Some (bearer t))) = Some t"
  by (simp_all add: presented_token_def get_with_def bearer_def)

lemma token0_nonempty: "token0 \<noteq> []"
  by (simp add: token0_def ref_pack_nonempty)

lemma ref_route_get_with: "\<not> route ref_libs ''POST'' pat (get_with pth h)"
  by (simp add: ref_libs_sel ref_route_def get_with_def)

section \<open>Facts about the program\<close>

lemma safeParse_valid:
  assumes "b = JObj fs" "map_of fs ''username'' = Some (JStr u)"
    "map_of fs ''password'' = Some (JStr p)" "1 \<le> length u" "6 \<le> length p"
  shows "userSchema_safeParse b = Inr (u, p)"
  using assms by (cases u) (simp_all add: userSchema_safeParse_def z_string_min_def)

lemma safeParse_credentials:
  "1 \<le> length u \<Longrightarrow> 6 \<le> length p \<Longrightarrow> userSchema_safeParse (credentials u p) = Inr (u, p)"
  by (cases u) (simp_all add: credentials_def userSchema_safeParse_def z_string_min_def)

lemma find_snoc:
  "find P xs = None \<Longrightarrow> find P (xs @ [r]) = (if P r then Some r else None)"
  by (induction xs) (auto split: if_splits)

lemma first_user_append:
  "first_user db name = None \<Longrightarrow>
   first_user (db\<lparr>users := users db @ [r], users_seq := i\<rparr>) name =
     (if u_username r = name then Some r else None)"
  by (simp add: first_user_def find_snoc)

lemma insert_user_fresh:
  assumes "first_user db name = None"
  shows "insert_user db name d =
     Inr (db\<lparr>users := users db @ [\<lparr>u_id = next_id db, u_username = name, u_password = d\<rparr>],
             users_seq := next_id db\<rparr>)"
  using assms by (simp add: insert_user_def Let_def)

lemma register_fresh:
  assumes "userSchema_safeParse (body req) = Inr (u, p)" "first_user db u = None"
  shows "register L salt db req =
     (Response 201 (message ''User registered successfully''),
      db\<lparr>users := users db @ [\<lparr>u_id = next_id db, u_username = u,
                                  u_password = bcrypt_hash L p 10 salt\<rparr>],
         users_seq := next_id db\<rparr>)"
  using assms by (simp add: register_def insert_user_fresh Let_def)

lemma jwt_verify_sign:
  assumes "codec_ok L" "k \<noteq> []"
  shows "jwt_verify L (pack L (encode L c) (mac L k (encode L c))) (Some k) now =
     (if expiresAt c \<le> now then Inl Expired else Inr c)"
  using assms by (simp add: jwt_verify_def codec_ok_def)

lemma verify_token0:
  "jwt_verify ref_libs token0 (Some ''k3y'') now = (if 3700 \<le> now then Inl Expired else Inr claims0)"
  using jwt_verify_sign [OF codec_ok_ref, of "''k3y''" claims0 now]
  by (simp add: ref_libs_sel token0_def claims0_def)

lemma verify_garbage: "jwt_verify ref_libs ''garbage'' (Some ''k3y'') now = Inl InvalidSignature"
  by (simp add: jwt_verify_def ref_libs_sel ref_unpack_def un_unary_def ref_mac_def)

lemma sign_token0: "jwt_sign ref_libs 1 ''alice'' (Some ''k3y'') 100 = Inr token0"
  by (simp add: jwt_sign_def ref_libs_sel token0_def claims0_def Let_def)

lemma unpack_token0:
  "unpack ref_libs token0 = Some (ref_encode claims0, ref_mac ''k3y'' (ref_encode claims0))"
  by (simp add: ref_libs_sel token0_def ref_unpack_pack)

lemma ref_encode_head:
  "0 < length (ref_encode c)"
  "userId c \<noteq> 0 \<Longrightarrow> ref_encode c ! 0 = CHR ''1''"
  by (cases "userId c"; simp add: ref_encode_def unary_def)+

lemma token0_payload_head:
  "0 < length (ref_encode claims0)" "CHR ''x'' \<noteq> ref_encode claims0 ! 0"
proof -
  show "0 < length (ref_encode claims0)"
    by (rule ref_encode_head(1))
  have "userId claims0 \<noteq> 0"
    by (simp add: claims0_def)
  then show "CHR ''x'' \<noteq> ref_encode claims0 ! 0"
    by (simp add: ref_encode_head(2))
qed

lemma ref_route_post: "route ref_libs ''POST'' pat (post pth b) \<longleftrightarrow> pth = pat"
  by (auto simp: ref_libs_sel ref_route_def post_def)

lemma register_alice:
  "register ref_libs ''NaCl'' db0 (post pth (credentials ''alice'' ''secret1'')) =
     (Response 201 (message ''User registered successfully''), db1)"
  using register_fresh [of "post pth (credentials ''alice'' ''secret1'')" "''alice''" "''secret1''"
      db0 ref_libs "''NaCl''"]
  by (simp add: safeParse_credentials post_def first_user_def db0_def db1_def next_id_def
      ref_libs_sel)

lemma first_user_db1:
  "first_user db1 ''alice'' = Some \<lparr>u_id = 1, u_username = ''alice'',
      u_password = ref_hash ''secret1'' 10 ''NaCl''\<rparr>"
  "first_user db1 ''bob'' = None"
  by (simp_all add: first_user_def db1_def)

lemma register_alice_again:
  "register ref_libs salt db1 (post pth (credentials ''alice'' ''another1'')) =
     (Response 400 (message ''Username already taken''), db1)"
  by (simp add: register_def safeParse_credentials post_def first_user_db1)

lemma safeParse_short_password:
  "userSchema_safeParse (credentials (c # cs) ''abc'') = Inl [TooSmall [''password''] 6]"
  by (simp add: credentials_def userSchema_safeParse_def z_string_min_def issues_of_def)

section \<open>Register, login, verify\<close>

text \<open>
  C1. A body with a non-empty username \<open>u\<close> and a password \<open>p\<close> of at least 6 characters,
  \<open>u\<close> not yet in the users table: \<^verbatim>\<open>POST /register\<close> answers 201 and stores the user; a
  following \<^verbatim>\<open>POST /login\<close> with the same body answers 200 with a token; verified before
  its hour is over, the token is accepted and carries exactly the id and the username of
  the stored row, and the token gate hands a request presenting it to the next handler with that
  identity attached. The signing secret is configured, and the libraries read back what
  they wrote (\<open>codec_ok\<close>, \<open>hasher_ok\<close>).
\<close>

theorem register_then_login_verifies:
  assumes lib: "codec_ok L" "hasher_ok L"
    and sec: "JWT_SECRET e = Some k" "k \<noteq> []"
    and bdy: "body req = JObj fs" "map_of fs ''username'' = Some (JStr u)"
      "map_of fs ''password'' = Some (JStr p)" "body req' = body req"
    and valid: "u \<noteq> []" "6 \<le> length p"
    and fresh: "first_user db u = None"
    and time: "t' < t + 3600"
  shows "\<exists>db' tok c.
     register L salt db req = (Response 201 (message ''User registered successfully''), db') \<and>
     login L e t db' req' = (Response 200 (JObj [(''token'', JStr tok)]), db') \<and>
     jwt_verify L tok (JWT_SECRET e) t' = Inr c \<and>
     first_user db' u = Some \<lparr>u_id = userId c, u_username = username c,
                               u_password = bcrypt_hash L p 10 salt\<rparr> \<and>
     username c = u \<and>
     authenticateToken L e t' (rq\<lparr>authorization := Some (''Bearer '' @ tok)\<rparr>) db' nxt =
       nxt (rq\<lparr>authorization := Some (''Bearer '' @ tok), user := Some c\<rparr>) db'"
proof -
  let ?row = "\<lparr>u_id = next_id db, u_username = u, u_password = bcrypt_hash L p 10 salt\<rparr>"
  let ?db' = "db\<lparr>users := users db @ [?row], users_seq := next_id db\<rparr>"
  let ?c = "\<lparr>userId = next_id db, username = u, issuedAt = t, expiresAt = t + 3600\<rparr>"
  let ?tok = "pack L (encode L ?c) (mac L k (encode L ?c))"
  have parse: "userSchema_safeParse (body req) = Inr (u, p)"
    using bdy valid by (intro safeParse_valid) (auto simp: Suc_le_eq)
  have reg: "register L salt db req = (Response 201 (message ''User registered successfully''), ?db')"
    using parse fresh by (rule register_fresh)
  have found: "first_user ?db' u = Some ?row"
    using fresh by (simp add: first_user_append)
  have cmp: "bcrypt_compare L p (bcrypt_hash L p 10 salt)"
    using lib(2) by (simp add: hasher_ok_def)
  have sign: "jwt_sign L (next_id db) u (JWT_SECRET e) t = Inr ?tok"
    using sec by (simp add: jwt_sign_def Let_def)
  have log: "login L e t ?db' req' = (Response 200 (JObj [(''token'', JStr ?tok)]), ?db')"
    using parse bdy(4) found cmp sign by (simp add: login_def)
  have ver: "jwt_verify L ?tok (JWT_SECRET e) t' = Inr ?c"
    using lib(1) sec time by (simp add: jwt_verify_sign)
  have nonempty: "?tok \<noteq> []"
    using lib(1) by (simp add: codec_ok_def)
  have admitted: "authenticateToken L e t' (rq\<lparr>authorization := Some (''Bearer '' @ ?tok)\<rparr>) ?db' nxt =
       nxt (rq\<lparr>authorization := Some (''Bearer '' @ ?tok), user := Some ?c\<rparr>) ?db'"
    using ver nonempty by (simp add: authenticateToken_def presented_token_def)
  show ?thesis
    using reg log ver found admitted by (intro exI[of _ ?db'] exI[of _ ?tok] exI[of _ ?c]) simp
qed

theorem register_then_login_verifies_witness:
  "\<exists>db' tok c.
     register ref_libs ''NaCl'' db0 (post ''/register'' (credentials ''alice'' ''secret1'')) =
       (Response 201 (message ''User registered successfully''), db') \<and>
     login ref_libs env_secret 100 db' (post ''/login'' (credentials ''alice'' ''secret1'')) =
       (Response 200 (JObj [(''token'', JStr tok)]), db') \<and>
     jwt_verify ref_libs tok (JWT_SECRET env_secret) 200 = Inr c \<and>
     first_user db' ''alice'' = Some \<lparr>u_id = userId c, u_username = username c,
                               u_password = bcrypt_hash ref_libs ''secret1'' 10 ''NaCl''\<rparr> \<and>
     username c = ''alice'' \<and>
     authenticateToken ref_libs env_secret 200
         ((get_with ''/profile'' None)\<lparr>authorization := Some (''Bearer '' @ tok)\<rparr>) db' routes_ok =
       routes_ok ((get_with ''/profile'' None)\<lparr>authorization := Some (''Bearer '' @ tok),
                                                user := Some c\<rparr>) db'"
  using register_then_login_verifies [where L = ref_libs and e = env_secret and k = "''k3y''"
      and req = "post ''/register'' (credentials ''alice'' ''secret1'')"
      and req' = "post ''/login'' (credentials ''alice'' ''secret1'')"
      and fs = "[(''username'', JStr ''alice''), (''password'', JStr ''secret1'')]"
      and u = "''alice''" and p = "''secret1''" and db = db0 and t = 100 and t' = 200
      and salt = "''NaCl''" and rq = "get_with ''/profile'' None" and nxt = routes_ok]
  by (simp add: codec_ok_ref hasher_ok_ref env_secret_def post_def credentials_def db0_def
      first_user_def)

section \<open>The token gate\<close>

text \<open>
  C2. A request that matches neither \<^verbatim>\<open>POST /register\<close> nor \<^verbatim>\<open>POST /login\<close> goes through
  the token gate. With no token (no \<^verbatim>\<open>Authorization\<close> header, or nothing left of it once
  \<^verbatim>\<open>"Bearer "\<close> is removed) the answer is 401; with a token that verification rejects,
  whatever the error (bad signature, expired, malformed), the answer is 403. In both
  cases the answer and the store do not depend on the downstream handler \<open>routes\<close>: it is
  not run. Only when verification succeeds does \<open>routes\<close> run, on the request with the
  verified identity in \<^verbatim>\<open>req.user\<close>.
\<close>

theorem gate_wraps_other_endpoints:
  assumes "\<not> route L ''POST'' ''/register'' req" "\<not> route L ''POST'' ''/login'' req"
  shows "(presented_token req = None \<or> presented_token req = Some [] \<longrightarrow>
            app L e now salt routes db req =
              (Response 401 (message ''Access denied, token missing''), db)) \<and>
         (\<forall>t err. presented_token req = Some t \<and> t \<noteq> [] \<and>
              jwt_verify L t (JWT_SECRET e) now = Inl err \<longrightarrow>
            app L e now salt routes db req = (Response 403 (message ''Invalid token''), db)) \<and>
         (\<forall>t c. presented_token req = Some t \<and> t \<noteq> [] \<and>
              jwt_verify L t (JWT_SECRET e) now = Inr c \<longrightarrow>
            app L e now salt routes db req = routes (req\<lparr>user := Some c\<rparr>) db)"
  using assms by (auto simp: app_def authenticateToken_def)

theorem gate_wraps_other_endpoints_witness:
  "app ref_libs env_secret 200 ''NaCl'' routes_ok db0 (get_with ''/items'' None) =
     (Response 401 (message ''Access denied, token missing''), db0) \<and>
   app ref_libs env_secret 200 ''NaCl'' routes_ok db0 (get_with ''/items'' (Some (bearer ''garbage''))) =
     (Response 403 (message ''Invalid token''), db0) \<and>
   app ref_libs env_secret 200 ''NaCl'' routes_ok db0
       (get_with ''/items'' (Some (bearer token0))) =
     routes_ok ((get_with ''/items'' (Some (bearer token0)))\<lparr>user := Some claims0\<rparr>) db0"
  using gate_wraps_other_endpoints [OF ref_route_get_with ref_route_get_with,
      of "''/items''" None env_secret 200 "''NaCl''" routes_ok db0]
    gate_wraps_other_endpoints [OF ref_route_get_with ref_route_get_with,
      of "''/items''" "Some (bearer ''garbage'')" env_secret 200 "''NaCl''" routes_ok db0]
    gate_wraps_other_endpoints [OF ref_route_get_with ref_route_get_with,
      of "''/items''" "Some (bearer token0)" env_secret 200 "''NaCl''" routes_ok db0]
  by (simp add: presented_token_get_with verify_token0 verify_garbage token0_nonempty
      env_secret_def)

section \<open>Login failures\<close>

text \<open>
  C3. For a login request whose body passes validation, a registered username with a
  password that bcrypt does not accept and a username that is not registered get the
  same answer, 400 with the body \<^verbatim>\<open>{message: "Invalid credentials"}\<close>, and the store is
  left as it was. A body that fails validation is answered 400 \<^verbatim>\<open>{errors}\<close> whatever the
  store holds, so that answer does not tell whether the username exists either.
\<close>

theorem login_failures_indistinguishable:
  assumes "userSchema_safeParse (body r1) = Inr (u1, p1)"
    and "userSchema_safeParse (body r2) = Inr (u2, p2)"
    and "first_user db u1 = Some usr" "\<not> bcrypt_compare L p1 (u_password usr)"
    and "first_user db u2 = None"
  shows "login L e now db r1 = (Response 400 (message ''Invalid credentials''), db) \<and>
         login L e now db r2 = (Response 400 (message ''Invalid credentials''), db) \<and>
         (\<forall>r is db'. userSchema_safeParse (body r) = Inl is \<longrightarrow>
            login L e now db' r = (Response 400 (JObj [(''errors'', zod_format L is)]), db'))"
  using assms by (simp add: login_def)

theorem login_failures_indistinguishable_witness:
  "login ref_libs env_secret 100 db1 (post ''/login'' (credentials ''alice'' ''wrong-password'')) =
     (Response 400 (message ''Invalid credentials''), db1) \<and>
   login ref_libs env_secret 100 db1 (post ''/login'' (credentials ''bob'' ''secret1'')) =
     (Response 400 (message ''Invalid credentials''), db1)"
  using login_failures_indistinguishable [of "post ''/login'' (credentials ''alice'' ''wrong-password'')"
      "''alice''" "''wrong-password''" "post ''/login'' (credentials ''bob'' ''secret1'')"
      "''bob''" "''secret1''" db1
      "\<lparr>u_id = 1, u_username = ''alice'', u_password = ref_hash ''secret1'' 10 ''NaCl''\<rparr>"
      ref_libs env_secret 100]
  by (simp add: safeParse_credentials post_def first_user_db1 ref_libs_sel ref_compare_hash)

text \<open>
  Without the condition on the body the statement fails: \<open>alice\<close> is registered, \<open>abc\<close>
  is not her password, and the answer is the validation error, not
  \<^verbatim>\<open>{message: "Invalid credentials"}\<close>, which an unregistered \<open>bob\<close> gets.
\<close>

theorem login_wrong_short_password_counterexample:
  "first_user db1 ''alice'' =
     Some \<lparr>u_id = 1, u_username = ''alice'', u_password = ref_hash ''secret1'' 10 ''NaCl''\<rparr> \<and>
   \<not> bcrypt_compare ref_libs ''abc'' (ref_hash ''secret1'' 10 ''NaCl'') \<and>
   login ref_libs env_secret 100 db1 (post ''/login'' (credentials ''alice'' ''abc'')) =
     (Response 400 (JObj [(''errors'', zod_format ref_libs [TooSmall [''password''] 6])]), db1) \<and>
   login ref_libs env_secret 100 db1 (post ''/login'' (credentials ''bob'' ''secret1'')) =
     (Response 400 (JObj [(''message'', JStr ''Invalid credentials'')]), db1)"
  by (simp add: first_user_db1 ref_libs_sel ref_compare_hash login_def post_def
      safeParse_short_password safeParse_credentials message_def)

section \<open>The signing secret\<close>

text \<open>
  C4. The secret is read from the environment inside each call of \<^verbatim>\<open>jwt.sign\<close> and
  \<^verbatim>\<open>jwt.verify\<close>; nothing checks it when the process starts, and the process serves
  requests without it. With the secret absent, registration works as ever and a request
  without a token is answered 401; a request that presents any token is answered 403
  \<^verbatim>\<open>{message: "Invalid token"}\<close>, and a login with correct credentials throws at
  \<^verbatim>\<open>jwt.sign\<close>: errors of the single request, which leave the store as it was.
\<close>

theorem secret_absence_is_per_request:
  assumes "JWT_SECRET e = None"
  shows "(route L ''POST'' ''/register'' req \<longrightarrow>
            app L e now salt routes db req = register L salt db req) \<and>
         (\<not> route L ''POST'' ''/register'' req \<and> \<not> route L ''POST'' ''/login'' req \<and>
            (presented_token req = None \<or> presented_token req = Some []) \<longrightarrow>
            app L e now salt routes db req =
              (Response 401 (message ''Access denied, token missing''), db)) \<and>
         (\<forall>t. \<not> route L ''POST'' ''/register'' req \<and> \<not> route L ''POST'' ''/login'' req \<and>
            presented_token req = Some t \<and> t \<noteq> [] \<longrightarrow>
            app L e now salt routes db req = (Response 403 (message ''Invalid token''), db)) \<and>
         (\<forall>u p usr. \<not> route L ''POST'' ''/register'' req \<and> route L ''POST'' ''/login'' req \<and>
            userSchema_safeParse (body req) = Inr (u, p) \<and> first_user db u = Some usr \<and>
            bcrypt_compare L p (u_password usr) \<longrightarrow>
            app L e now salt routes db req = (Unhandled (JwtError SecretMissing), db))"
  using assms
  by (auto simp: app_def authenticateToken_def jwt_verify_def jwt_sign_def login_def)

theorem secret_absence_is_per_request_witness:
  "app ref_libs env_no_secret 100 ''NaCl'' routes_ok db0
       (post ''/register'' (credentials ''alice'' ''secret1'')) =
     (Response 201 (message ''User registered successfully''), db1) \<and>
   app ref_libs env_no_secret 100 ''NaCl'' routes_ok db1 (get_with ''/items'' None) =
     (Response 401 (message ''Access denied, token missing''), db1) \<and>
   app ref_libs env_no_secret 100 ''NaCl'' routes_ok db1 (get_with ''/items'' (Some (bearer token0))) =
     (Response 403 (message ''Invalid token''), db1) \<and>
   app ref_libs env_no_secret 100 ''NaCl'' routes_ok db1
       (post ''/login'' (credentials ''alice'' ''secret1'')) =
     (Unhandled (JwtError SecretMissing), db1)"
  using secret_absence_is_per_request [of env_no_secret ref_libs
      "post ''/register'' (credentials ''alice'' ''secret1'')" 100 "''NaCl''" routes_ok db0]
    secret_absence_is_per_request [of env_no_secret ref_libs
      "get_with ''/items'' None" 100 "''NaCl''" routes_ok db1]
    secret_absence_is_per_request [of env_no_secret ref_libs
      "get_with ''/items'' (Some (bearer token0))" 100 "''NaCl''" routes_ok db1]
    secret_absence_is_per_request [of env_no_secret ref_libs
      "post ''/login'' (credentials ''alice'' ''secret1'')" 100 "''NaCl''" routes_ok db1]
  by (simp add: env_no_secret_def ref_route_post ref_route_get_with register_alice
      presented_token_get_with token0_nonempty)
     (simp add: post_def safeParse_credentials first_user_db1 ref_libs_sel ref_compare_hash)

text \<open>
  A process without the secret is up and serving: it registers \<open>alice\<close>, and the missing
  secret shows as the 403 of one request, during verification.
\<close>

theorem absent_secret_counterexample:
  "JWT_SECRET env_no_secret = None \<and>
   app ref_libs env_no_secret 100 ''NaCl'' routes_ok db0
       (post ''/register'' (credentials ''alice'' ''secret1'')) =
     (Response 201 (message ''User registered successfully''), db1) \<and>
   app ref_libs env_no_secret 100 ''NaCl'' routes_ok db1 (get_with ''/items'' (Some (bearer token0))) =
     (Response 403 (message ''Invalid token''), db1)"
  by (simp add: app_def ref_route_post ref_route_get_with register_alice env_no_secret_def
      authenticateToken_def presented_token_get_with token0_nonempty jwt_verify_def)

section \<open>Registering twice\<close>

text \<open>
  C5. Registering a username a second time: the first attempt is answered 201; the
  second is answered 400 and changes nothing, whatever its password. With a password of
  at least 6 characters the body is \<^verbatim>\<open>{message: "Username already taken"}\<close>; a shorter
  one is stopped by validation, with an \<^verbatim>\<open>{errors}\<close> body, before the duplicate check.
\<close>

theorem register_twice:
  assumes "userSchema_safeParse (body r1) = Inr (u, p1)" "first_user db u = None"
    and "body r2 = JObj fs" "map_of fs ''username'' = Some (JStr u)"
      "map_of fs ''password'' = Some (JStr p2)"
  shows "\<exists>db'. register L s1 db r1 = (Response 201 (message ''User registered successfully''), db') \<and>
     register L s2 db' r2 =
       (Response 400 (if 6 \<le> length p2 then message ''Username already taken''
                      else JObj [(''errors'', zod_format L [TooSmall [''password''] 6])]), db')"
proof -
  let ?db' = "db\<lparr>users := users db @ [\<lparr>u_id = next_id db, u_username = u,
                   u_password = bcrypt_hash L p1 10 s1\<rparr>], users_seq := next_id db\<rparr>"
  have u: "u \<noteq> []"
    using assms(1)
    by (auto simp: userSchema_safeParse_def z_string_min_def Let_def
        split: json.splits option.splits sum.splits if_splits)
  have reg: "register L s1 db r1 = (Response 201 (message ''User registered successfully''), ?db')"
    using assms(1,2) by (rule register_fresh)
  have found: "first_user ?db' u \<noteq> None"
    using assms(2) by (simp add: first_user_append)
  have again: "register L s2 ?db' r2 =
       (Response 400 (if 6 \<le> length p2 then message ''Username already taken''
                      else JObj [(''errors'', zod_format L [TooSmall [''password''] 6])]), ?db')"
  proof (cases "6 \<le> length p2")
    case True
    then have "userSchema_safeParse (body r2) = Inr (u, p2)"
      using assms(3-5) u by (intro safeParse_valid) (auto simp: Suc_le_eq)
    then show ?thesis
      using found True by (auto simp: register_def)
  next
    case False
    then have "userSchema_safeParse (body r2) = Inl [TooSmall [''password''] 6]"
      using assms(3-5) u
      by (cases u) (simp_all add: userSchema_safeParse_def z_string_min_def issues_of_def)
    then show ?thesis
      using False by (simp add: register_def)
  qed
  show ?thesis
    using reg again by blast
qed

theorem register_twice_witness:
  "\<exists>db'. register ref_libs ''NaCl'' db0 (post ''/register'' (credentials ''alice'' ''secret1'')) =
       (Response 201 (message ''User registered successfully''), db') \<and>
     register ref_libs ''Salt2'' db' (post ''/register'' (credentials ''alice'' ''another1'')) =
       (Response 400 (message ''Username already taken''), db')"
  using register_twice [of "post ''/register'' (credentials ''alice'' ''secret1'')" "''alice''"
      "''secret1''" db0 "post ''/register'' (credentials ''alice'' ''another1'')"
      "[(''username'', JStr ''alice''), (''password'', JStr ''another1'')]" "''another1''"
      ref_libs "''NaCl''" "''Salt2''"]
  by (simp add: userSchema_safeParse_def z_string_min_def post_def first_user_def db0_def
      credentials_def)

text \<open>
  The body of the second answer has a \<^verbatim>\<open>message\<close> member and no \<^verbatim>\<open>errors\<close> member.
\<close>

theorem duplicate_register_counterexample:
  "register ref_libs ''NaCl'' db0 (post ''/register'' (credentials ''alice'' ''secret1'')) =
     (Response 201 (message ''User registered successfully''), db1) \<and>
   register ref_libs ''Salt2'' db1 (post ''/register'' (credentials ''alice'' ''another1'')) =
     (Response 400 (JObj [(''message'', JStr ''Username already taken'')]), db1) \<and>
   json_field (JObj [(''message'', JStr ''Username already taken'')]) ''errors'' = None"
  using register_alice [of "''/register''"] register_alice_again [of "''Salt2''" "''/register''"]
  by (simp add: message_def)

section \<open>What a register response shows\<close>

text \<open>
  C6. The answer to a successful registration is 201 with the fixed body
  \<^verbatim>\<open>{message: "User registered successfully"}\<close>: it carries neither the id nor the
  username. No register response carries the password or its digest: two requests with
  the same username member, whose passwords are on the same side of the 6-character
  minimum, get the same response, whatever the passwords and the salts are.
\<close>

theorem register_response_hides_password:
  assumes "body r1 = JObj f1" "body r2 = JObj f2"
    and "map_of f1 ''username'' = map_of f2 ''username''"
    and "map_of f1 ''password'' = Some (JStr p1)" "map_of f2 ''password'' = Some (JStr p2)"
    and "length p1 < 6 \<longleftrightarrow> length p2 < 6"
  shows "fst (register L s1 db r1) = fst (register L s2 db r2) \<and>
         (\<forall>b. fst (register L s1 db r1) = Response 201 b \<longrightarrow>
            b = message ''User registered successfully'')"
  using assms
  by (auto simp: register_def userSchema_safeParse_def z_string_min_def issues_of_def
      insert_user_def Let_def split: sum.splits option.splits json.splits if_splits)

theorem register_response_hides_password_witness:
  "fst (register ref_libs ''NaCl'' db0 (post ''/register'' (credentials ''alice'' ''secret1''))) =
     fst (register ref_libs ''Salt2'' db0 (post ''/register'' (credentials ''alice'' ''another1''))) \<and>
   fst (register ref_libs ''NaCl'' db0 (post ''/register'' (credentials ''alice'' ''secret1''))) =
     Response 201 (message ''User registered successfully'')"
  using register_response_hides_password [of "post ''/register'' (credentials ''alice'' ''secret1'')"
      "[(''username'', JStr ''alice''), (''password'', JStr ''secret1'')]"
      "post ''/register'' (credentials ''alice'' ''another1'')"
      "[(''username'', JStr ''alice''), (''password'', JStr ''another1'')]"
      "''secret1''" "''another1''" ref_libs "''NaCl''" db0 "''Salt2''"]
    register_alice [of "''/register''"]
  by (simp add: post_def credentials_def)

text \<open>
  The body of the 201 answer has neither an \<^verbatim>\<open>id\<close> nor a \<^verbatim>\<open>username\<close> member.
\<close>

theorem register_success_body_counterexample:
  "register ref_libs ''NaCl'' db0 (post ''/register'' (credentials ''alice'' ''secret1'')) =
     (Response 201 (JObj [(''message'', JStr ''User registered successfully'')]), db1) \<and>
   json_field (JObj [(''message'', JStr ''User registered successfully'')]) ''id'' = None \<and>
   json_field (JObj [(''message'', JStr ''User registered successfully'')]) ''username'' = None"
  using register_alice [of "''/register''"] by (simp add: message_def)

section \<open>Tampering and expiry\<close>

text \<open>
  C7. Take a token the codec issued and change one byte of its payload, keeping the
  signature. Verification fails with \<open>InvalidSignature\<close>, at every time \<open>now\<close> (so also
  once the token has expired: the signature is compared before the expiry is looked at)
  and whatever the decoder \<open>d\<close> would make of the changed payload (no field of it is
  read before the comparison). The signature function is taken free of collisions under
  the key, as a keyed hash is meant to be.
\<close>

theorem tampered_payload_invalid_signature:
  assumes "codec_ok L" "inj (mac L k)"
    and "jwt_sign L uid uname (Some k) t = Inr tok" "unpack L tok = Some (p, s)"
    and "i < length p" "b \<noteq> p ! i"
  shows "jwt_verify L (pack L (p[i := b]) s) (Some k) now = Inl InvalidSignature \<and>
         jwt_verify (L\<lparr>decode := d\<rparr>) (pack L (p[i := b]) s) (Some k) now = Inl InvalidSignature"
proof -
  have k: "k \<noteq> []"
    using assms(3) by (auto simp: jwt_sign_def split: if_splits)
  then have "tok = pack L (encode L \<lparr>userId = uid, username = uname, issuedAt = t,
      expiresAt = t + 3600\<rparr>) (mac L k (encode L \<lparr>userId = uid, username = uname,
      issuedAt = t, expiresAt = t + 3600\<rparr>))"
    using assms(3) by (simp add: jwt_sign_def Let_def)
  then have s: "s = mac L k p"
    using assms(1,4) by (auto simp: codec_ok_def)
  have "p[i := b] \<noteq> p"
    using assms(5,6) by (metis nth_list_update_eq length_list_update)
  then have "mac L k (p[i := b]) \<noteq> s"
    using assms(2) s by (auto dest: injD)
  then show ?thesis
    using assms(1) k by (simp add: jwt_verify_def codec_ok_def)
qed

theorem tampered_payload_invalid_signature_witness:
  "jwt_verify ref_libs
     (pack ref_libs ((ref_encode claims0)[0 := CHR ''x'']) (ref_mac ''k3y'' (ref_encode claims0)))
     (Some ''k3y'') 7200 = Inl InvalidSignature"
  by (rule conjunct1 [OF tampered_payload_invalid_signature [OF codec_ok_ref inj_ref_mac
        sign_token0 unpack_token0 token0_payload_head]])

text \<open>
  C8. A token issued at time \<open>t\<close> expires at \<open>t + 3600\<close>: verified at any time before
  that it is accepted and gives back the identity it was issued for; verified at that
  time or later it fails with \<open>Expired\<close>, which is not the error of a bad signature.
\<close>

theorem token_expires_after_one_hour:
  assumes "codec_ok L" "jwt_sign L uid uname secret t = Inr tok"
  shows "(now < t + 3600 \<longrightarrow>
            jwt_verify L tok secret now =
              Inr \<lparr>userId = uid, username = uname, issuedAt = t, expiresAt = t + 3600\<rparr>) \<and>
         (t + 3600 \<le> now \<longrightarrow> jwt_verify L tok secret now = Inl Expired) \<and>
         Inl Expired \<noteq> (Inl InvalidSignature :: codec_error + claims)"
  using assms
  by (auto simp: jwt_sign_def jwt_verify_def codec_ok_def Let_def split: option.splits if_splits)

theorem token_expires_after_one_hour_witness:
  "jwt_verify ref_libs token0 (Some ''k3y'') 3699 = Inr claims0 \<and>
   jwt_verify ref_libs token0 (Some ''k3y'') 3700 = Inl Expired"
  using token_expires_after_one_hour [OF codec_ok_ref sign_token0, of 3699]
    token_expires_after_one_hour [OF codec_ok_ref sign_token0, of 3700]
  by (simp add: claims0_def)

section \<open>Failed requests\<close>

text \<open>
  C9. A register request that is not answered with the 201 of success leaves the
  database exactly as it was: no row added, none changed. That covers both failures:
  a body that fails validation (400 \<^verbatim>\<open>{errors}\<close>) and a username already taken (400
  \<^verbatim>\<open>{message}\<close>); hashing and the insert come after both checks, so the outcome is the
  same for any hash function \<open>h\<close> and any salt.
\<close>

theorem register_failure_keeps_store:
  assumes "register L salt db req = (out, db')"
    and "out \<noteq> Response 201 (message ''User registered successfully'')"
  shows "db' = db \<and>
         (\<forall>h salt'. register (L\<lparr>bcrypt_hash := h\<rparr>) salt' db req = (out, db)) \<and>
         (\<forall>is. userSchema_safeParse (body req) = Inl is \<longrightarrow>
            out = Response 400 (JObj [(''errors'', zod_format L is)])) \<and>
         (\<forall>u p usr. userSchema_safeParse (body req) = Inr (u, p) \<and> first_user db u = Some usr \<longrightarrow>
            out = Response 400 (message ''Username already taken''))"
  using assms
  by (auto simp: register_def insert_user_def Let_def split: sum.splits option.splits)

theorem register_failure_keeps_store_witness:
  "register ref_libs ''Salt2'' db1 (post ''/register'' (credentials ''alice'' ''another1'')) =
     (Response 400 (message ''Username already taken''), db1) \<and>
   register ref_libs ''Salt2'' db1 (post ''/register'' (credentials ''carol'' ''abc'')) =
     (Response 400 (JObj [(''errors'', zod_format ref_libs [TooSmall [''password''] 6])]), db1)"
proof -
  let ?r1 = "register ref_libs ''Salt2'' db1 (post ''/register'' (credentials ''alice'' ''another1''))"
  let ?r2 = "register ref_libs ''Salt2'' db1 (post ''/register'' (credentials ''carol'' ''abc''))"
  have a: "fst ?r1 = Response 400 (message ''Username already taken'')"
    by (simp add: register_alice_again)
  have b: "fst ?r2 = Response 400 (JObj [(''errors'', zod_format ref_libs [TooSmall [''password''] 6])])"
    by (simp add: register_def post_def safeParse_short_password)
  have a': "fst ?r1 \<noteq> Response 201 (message ''User registered successfully'')"
    using a by simp
  have b': "fst ?r2 \<noteq> Response 201 (message ''User registered successfully'')"
    using b by simp
  have "snd ?r1 = db1"
    using register_failure_keeps_store [OF prod.collapse [symmetric] a'] by (rule conjunct1)
  moreover have "snd ?r2 = db1"
    using register_failure_keeps_store [OF prod.collapse [symmetric] b'] by (rule conjunct1)
  ultimately show ?thesis
    using a b by (simp add: prod_eq_iff)
qed

text \<open>
  C10. Login parses the body with the schema registration uses. A body whose password
  is a string shorter than 6 characters is answered 400 with an \<^verbatim>\<open>{errors}\<close> body that
  lists the password as too small; the answer is the same whatever the database holds
  (no lookup has taken place), it is the answer registration gives to that body, and it
  is not \<^verbatim>\<open>{message: "Invalid credentials"}\<close>.
\<close>

theorem login_short_password_rejected:
  assumes "body req = JObj fs" "map_of fs ''password'' = Some (JStr p)" "length p < 6"
  shows "login L e now db req =
           (Response 400 (JObj [(''errors'', zod_format L
              (issues_of (z_string_min 1 ''username'' (map_of fs ''username'')) @
               [TooSmall [''password''] 6]))]), db) \<and>
         fst (login L e now db req) = fst (login L e now db' req) \<and>
         fst (login L e now db req) = fst (register L salt db' req) \<and>
         fst (login L e now db req) \<noteq> Response 400 (message ''Invalid credentials'')"
  using assms
  by (auto simp: login_def register_def userSchema_safeParse_def z_string_min_def issues_of_def
      message_def Let_def split: sum.splits option.splits json.splits)

theorem login_short_password_rejected_witness:
  "login ref_libs env_secret 100 db1 (post ''/login'' (credentials ''alice'' ''abc'')) =
     (Response 400 (JObj [(''errors'', zod_format ref_libs [TooSmall [''password''] 6])]), db1) \<and>
   fst (login ref_libs env_secret 100 db1 (post ''/login'' (credentials ''alice'' ''abc''))) =
     fst (login ref_libs env_secret 100 db0 (post ''/login'' (credentials ''alice'' ''abc''))) \<and>
   fst (login ref_libs env_secret 100 db1 (post ''/login'' (credentials ''alice'' ''abc''))) \<noteq>
     Response 400 (message ''Invalid credentials'')"
  using login_short_password_rejected [of "post ''/login'' (credentials ''alice'' ''abc'')"
      "[(''username'', JStr ''alice''), (''password'', JStr ''abc'')]" "''abc''"
      ref_libs env_secret 100 db1 db0 "''NaCl''"]
  by (auto simp: post_def credentials_def z_string_min_def issues_of_def)

end
